theory Spec2Isabelle
  imports Main "HOL-Library.AList"
begin

section \<open>Python values, exceptions and string primitives\<close>

text \<open>
  The functions of \<^verbatim>\<open>mne_bids/utils.py\<close> take arguments documented as
  \<^verbatim>\<open>str | None\<close> (and \<^verbatim>\<open>int | None\<close> for the run number). A value is therefore
  \<^verbatim>\<open>None\<close>, a string or an integer. Strings are lists of characters; the path
  separator \<^verbatim>\<open>os.sep\<close> is the POSIX one.
\<close>

datatype pyval = PNone | PStr string | PInt int

datatype errno = EEXIST | ENOENT | EISDIR | ENOTDIR | EACCES

text \<open>
  The exceptions the module raises or lets through. \<^verbatim>\<open>IOError\<close> is Python's
  \<^verbatim>\<open>OSError\<close>; it carries the \<^verbatim>\<open>errno\<close> that \<^verbatim>\<open>_mkdir_p\<close> inspects
  (\<^verbatim>\<open>None\<close> when raised with a message only).
\<close>

datatype error = ValueError string | TypeError string | IOError "errno option" string

definition os_sep :: char where
  "os_sep = CHR ''/''"

definition sep :: string where
  "sep = [os_sep]"

definition newline :: char where
  "newline = CHR 0x0A"

definition quote :: char where
  "quote = CHR 0x27"

fun isinstance_str :: "pyval \<Rightarrow> bool" where
  "isinstance_str (PStr s) = True"
| "isinstance_str v = False"

definition digits :: string where
  "digits = ''0123456789''"

text \<open>The decimal numeral of a natural number, most significant digit first.\<close>

fun string_of_nat :: "nat \<Rightarrow> string" where
  "string_of_nat n =
     (if n < 10 then [digits ! n]
      else string_of_nat (n div 10) @ [digits ! (n mod 10)])"

declare string_of_nat.simps [simp del]

definition string_of_int :: "int \<Rightarrow> string" where
  "string_of_int i = (if i < 0 then CHR ''-'' # string_of_nat (nat (- i)) else string_of_nat (nat i))"

text \<open>\<^verbatim>\<open>'%s' % v\<close>: the \<^verbatim>\<open>str()\<close> of a value.\<close>

fun py_str :: "pyval \<Rightarrow> string" where
  "py_str PNone = ''None''"
| "py_str (PStr s) = s"
| "py_str (PInt i) = string_of_int i"

text \<open>\<^verbatim>\<open>'%s' % type(v)\<close>, as Python 3 prints a type.\<close>

fun type_repr :: "pyval \<Rightarrow> string" where
  "type_repr PNone = ''<class '' @ [quote] @ ''NoneType'' @ [quote] @ ''>''"
| "type_repr (PStr s) = ''<class '' @ [quote] @ ''str'' @ [quote] @ ''>''"
| "type_repr (PInt i) = ''<class '' @ [quote] @ ''int'' @ [quote] @ ''>''"

text \<open>
  \<^verbatim>\<open>'{:02}'.format(i)\<close> on an integer: sign-aware zero padding to width two. A
  negative number already fills the width with its sign and first digit.
\<close>

definition format_02 :: "int \<Rightarrow> string" where
  "format_02 i =
     (let s = string_of_int i in
      if length s < 2 then replicate (2 - length s) CHR ''0'' @ s else s)"

text \<open>\<^verbatim>\<open>sep.join(xs)\<close>.\<close>

fun py_join :: "string \<Rightarrow> string list \<Rightarrow> string" where
  "py_join s [] = []"
| "py_join s [x] = x"
| "py_join s (x # y # ys) = x @ s @ py_join s (y # ys)"

definition startswith_sep :: "string \<Rightarrow> bool" where
  "startswith_sep b = (case b of [] \<Rightarrow> False | c # cs \<Rightarrow> [c] = sep)"

definition endswith_sep :: "string \<Rightarrow> bool" where
  "endswith_sep b = (b \<noteq> [] \<and> [last b] = sep)"

text \<open>
  \<^verbatim>\<open>os.path.join(a, *p)\<close> of \<^verbatim>\<open>posixpath\<close>: a component that starts with the
  separator discards what came before it; otherwise one separator is inserted unless the
  path so far is empty or already ends with one.
\<close>

fun os_path_join :: "string \<Rightarrow> string list \<Rightarrow> string" where
  "os_path_join path [] = path"
| "os_path_join path (b # p) =
     os_path_join
       (if startswith_sep b then b
        else if path = [] \<or> endswith_sep path then path @ b
        else path @ sep @ b) p"

section \<open>Validators\<close>

text \<open>\<^verbatim>\<open>_check_types\<close>: every variable must be a string or \<^verbatim>\<open>None\<close>.\<close>

fun check_types :: "pyval list \<Rightarrow> error + unit" where
  "check_types [] = Inr ()"
| "check_types (var # variables) =
     (if \<not> (isinstance_str var \<or> var = PNone)
      then Inl (ValueError (''All values must be either None or strings. Found type ''
                            @ type_repr var @ ''.''))
      else check_types variables)"

definition forbidden :: "char list" where
  "forbidden = [CHR ''-'', CHR ''_'', CHR ''/'']"

definition unallowed_msg :: "string \<Rightarrow> string \<Rightarrow> string" where
  "unallowed_msg key val =
     ''Unallowed `-`, `_`, or `/` found in key/value pair '' @ key @ '': '' @ val"

text \<open>
  \<^verbatim>\<open>_check_key_val\<close>. The test \<^verbatim>\<open>ii in val\<close> is a substring test on a string and a
  \<^verbatim>\<open>TypeError\<close> on a value that is not iterable.
\<close>

definition check_key_val :: "string \<Rightarrow> pyval \<Rightarrow> error + (string \<times> pyval)" where
  "check_key_val key val =
     (case val of
        PStr s \<Rightarrow>
          if list_ex (\<lambda>ii. ii \<in> set s) forbidden
          then Inl (ValueError (unallowed_msg key s))
          else Inr (key, val)
      | PNone \<Rightarrow> Inl (TypeError (''argument of type '' @ [quote] @ ''NoneType'' @ [quote]
                                  @ '' is not iterable''))
      | PInt i \<Rightarrow> Inl (TypeError (''argument of type '' @ [quote] @ ''int'' @ [quote]
                                   @ '' is not iterable'')))"

section \<open>The filename builder\<close>

text \<open>The loop of \<^verbatim>\<open>make_bids_filename\<close> over \<^verbatim>\<open>order.items()\<close>.\<close>

fun filename_loop :: "(string \<times> pyval) list \<Rightarrow> string list \<Rightarrow> error + string list" where
  "filename_loop [] filename = Inr filename"
| "filename_loop ((key, val) # items) filename =
     (if val \<noteq> PNone then
        (case check_key_val key val of
           Inl e \<Rightarrow> Inl e
         | Inr kv \<Rightarrow> filename_loop items (filename @ [key @ ''-'' @ py_str val]))
      else filename_loop items filename)"

text \<open>
  \<^verbatim>\<open>make_bids_filename\<close>, with the parameters in the order of the Python signature
  (\<^verbatim>\<open>recording\<close> before \<^verbatim>\<open>space\<close>). The table \<^verbatim>\<open>order\<close> is an ordered dictionary, here an
  association list; assigning to \<^verbatim>\<open>order['run']\<close> keeps the entry in place. The guard
  before the loop asks whether any \<^emph>\<open>key\<close> of the table is a string.
\<close>

definition make_bids_filename ::
  "pyval \<Rightarrow> pyval \<Rightarrow> pyval \<Rightarrow> pyval \<Rightarrow> pyval \<Rightarrow> pyval \<Rightarrow> pyval \<Rightarrow> pyval \<Rightarrow> pyval \<Rightarrow> pyval
     \<Rightarrow> error + string" where
  "make_bids_filename subject session task acquisition run processing recording space
       suffix prefix =
     (let order0 = [(''sub'', subject), (''ses'', session), (''task'', task),
                    (''acq'', acquisition), (''run'', run), (''proc'', processing),
                    (''space'', space), (''recording'', recording)];
          order = (case run of
                     PInt i \<Rightarrow> AList.update ''run'' (PStr (format_02 i)) order0
                   | _ \<Rightarrow> order0)
      in case check_types (map snd order) of
           Inl e \<Rightarrow> Inl e
         | Inr u \<Rightarrow>
             if \<not> list_ex isinstance_str (map (\<lambda>kv. PStr (fst kv)) order)
             then Inl (ValueError ''At least one parameter must be given.'')
             else (case filename_loop order [] of
                     Inl e \<Rightarrow> Inl e
                   | Inr filename0 \<Rightarrow>
                       let filename1 = (if isinstance_str suffix
                                        then filename0 @ [py_str suffix] else filename0);
                           filename = py_join ''_'' filename1
                       in Inr (if isinstance_str prefix
                               then os_path_join (py_str prefix) [filename]
                               else filename)))"

section \<open>Notions used to state the properties of the filename builder\<close>

text \<open>
  A value the validator rejects, the values the type check accepts, the run number after its
  formatting, the table of entities in its fixed order, and the token of one entity.
\<close>

definition bad_value :: "pyval \<Rightarrow> bool" where
  "bad_value v = (case v of PStr s \<Rightarrow> list_ex (\<lambda>ii. ii \<in> set s) forbidden | _ \<Rightarrow> False)"

definition entity_token :: "string \<Rightarrow> pyval \<Rightarrow> string list" where
  "entity_token key val = (case val of PStr s \<Rightarrow> [key @ ''-'' @ s] | _ \<Rightarrow> [])"

definition str_or_none :: "pyval \<Rightarrow> bool" where
  "str_or_none v = (isinstance_str v \<or> v = PNone)"

definition norm_run :: "pyval \<Rightarrow> pyval" where
  "norm_run run = (case run of PInt i \<Rightarrow> PStr (format_02 i) | _ \<Rightarrow> run)"

definition entity_table ::
  "pyval \<Rightarrow> pyval \<Rightarrow> pyval \<Rightarrow> pyval \<Rightarrow> pyval \<Rightarrow> pyval \<Rightarrow> pyval \<Rightarrow> pyval \<Rightarrow> (string \<times> pyval) list" where
  "entity_table subject session task acquisition run processing recording space =
     [(''sub'', subject), (''ses'', session), (''task'', task), (''acq'', acquisition),
      (''run'', norm_run run), (''proc'', processing), (''space'', space),
      (''recording'', recording)]"

text \<open>
  The name the specification describes: the tokens of the given entities in the order of the
  table, then the suffix, joined by underscores, and the prefix joined on as a path.
\<close>

definition canonical_name ::
  "pyval \<Rightarrow> pyval \<Rightarrow> pyval \<Rightarrow> pyval \<Rightarrow> pyval \<Rightarrow> pyval \<Rightarrow> pyval \<Rightarrow> pyval \<Rightarrow> pyval \<Rightarrow> pyval \<Rightarrow> string" where
  "canonical_name subject session task acquisition run processing recording space suffix prefix =
     (let name = py_join ''_''
            (entity_token ''sub'' subject @ entity_token ''ses'' session
             @ entity_token ''task'' task @ entity_token ''acq'' acquisition
             @ entity_token ''run'' (norm_run run) @ entity_token ''proc'' processing
             @ entity_token ''space'' space @ entity_token ''recording'' recording
             @ (case suffix of PStr s \<Rightarrow> [s] | _ \<Rightarrow> []))
      in case prefix of PStr p \<Rightarrow> os_path_join p [name] | _ \<Rightarrow> name)"

text \<open>Reading a decimal numeral back.\<close>

definition nat_of_string :: "string \<Rightarrow> nat" where
  "nat_of_string s = foldl (\<lambda>a c. 10 * a + (of_char c - 48)) 0 s"

text \<open>
  A call with keyword arguments, as in the docstring's example: Python binds each parameter to
  the value given under its name and to its default \<^verbatim>\<open>None\<close> otherwise, and rejects a name
  that is not a parameter.
\<close>

definition param_names :: "string list" where
  "param_names = [''subject'', ''session'', ''task'', ''acquisition'', ''run'', ''processing'',
                  ''recording'', ''space'', ''suffix'', ''prefix'']"

definition kwarg :: "(string \<times> pyval) list \<Rightarrow> string \<Rightarrow> pyval" where
  "kwarg kwargs name = (case map_of kwargs name of Some v \<Rightarrow> v | None \<Rightarrow> PNone)"

definition make_bids_filename_kw :: "(string \<times> pyval) list \<Rightarrow> error + string" where
  "make_bids_filename_kw kwargs =
     (case find (\<lambda>kv. fst kv \<notin> set param_names) kwargs of
        Some kv \<Rightarrow> Inl (TypeError (''make_bids_filename() got an unexpected keyword argument ''
                                   @ [quote] @ fst kv @ [quote]))
      | None \<Rightarrow>
          make_bids_filename (kwarg kwargs ''subject'') (kwarg kwargs ''session'')
            (kwarg kwargs ''task'') (kwarg kwargs ''acquisition'') (kwarg kwargs ''run'')
            (kwarg kwargs ''processing'') (kwarg kwargs ''recording'') (kwarg kwargs ''space'')
            (kwarg kwargs ''suffix'') (kwarg kwargs ''prefix''))"

section \<open>The file system and the folder builder\<close>

text \<open>
  What the functions see of the storage: a path names a regular file with its text, a
  directory, or nothing. Standard output is part of the world because \<^verbatim>\<open>_mkdir_p\<close> prints
  when it is verbose.
\<close>

datatype node = File string | Dir

type_synonym fs = "string \<rightharpoonup> node"

record world =
  files :: fs
  stdout :: "string list"

text \<open>
  \<^verbatim>\<open>os.makedirs\<close> and \<^verbatim>\<open>shutil.rmtree\<close> belong to the standard library, not to the
  module. They are parameters here: each takes a path and the file system and gives an
  outcome and the file system it leaves behind.
\<close>

record os =
  os_makedirs :: "string \<Rightarrow> fs \<Rightarrow> (error + unit) \<times> fs"
  sh_rmtree :: "string \<Rightarrow> fs \<Rightarrow> (error + unit) \<times> fs"

definition os_path_exists :: "fs \<Rightarrow> string \<Rightarrow> bool" where
  "os_path_exists fs path = (fs path \<noteq> None)"

definition os_path_isdir :: "fs \<Rightarrow> string \<Rightarrow> bool" where
  "os_path_isdir fs path = (fs path = Some Dir)"

definition print :: "bool \<Rightarrow> string \<Rightarrow> world \<Rightarrow> world" where
  "print verbose line w = (if verbose then w\<lparr>stdout := stdout w @ [line]\<rparr> else w)"

text \<open>
  \<^verbatim>\<open>_mkdir_p\<close>: remove an existing directory when overwriting, then create the directory and
  its parents; an \<^verbatim>\<open>OSError\<close> with \<^verbatim>\<open>EEXIST\<close> is swallowed when the path is a
  directory, any other error is raised again.
\<close>

definition mkdir_p :: "os \<Rightarrow> string \<Rightarrow> bool \<Rightarrow> bool \<Rightarrow> world \<Rightarrow> (error + unit) \<times> world" where
  "mkdir_p os path overwrite verbose w =
     (case (if overwrite \<and> os_path_isdir (files w) path
            then (case sh_rmtree os path (files w) of
                    (Inl e, fs1) \<Rightarrow> (Inl e, w\<lparr>files := fs1\<rparr>)
                  | (Inr u, fs1) \<Rightarrow>
                      (Inr (), print verbose (''Overwriting path: '' @ path) (w\<lparr>files := fs1\<rparr>)))
            else (Inr (), w)) of
        (Inl e, w1) \<Rightarrow> (Inl e, w1)
      | (Inr u, w1) \<Rightarrow>
          (case os_makedirs os path (files w1) of
             (Inr u, fs2) \<Rightarrow>
               (Inr (), print verbose (''Creating folder: '' @ path) (w1\<lparr>files := fs2\<rparr>))
           | (Inl exc, fs2) \<Rightarrow>
               (case exc of
                  IOError en msg \<Rightarrow>
                    if en = Some EEXIST \<and> os_path_isdir fs2 path
                    then (Inr (), w1\<lparr>files := fs2\<rparr>)
                    else (Inl exc, w1\<lparr>files := fs2\<rparr>)
                | _ \<Rightarrow> (Inl exc, w1\<lparr>files := fs2\<rparr>))))"

text \<open>
  \<^verbatim>\<open>make_bids_folders\<close>. The result of the validator is discarded; only its failure
  matters. The list \<^verbatim>\<open>path\<close> always holds the subject's segment, so
  \<^verbatim>\<open>os.path.join(*path)\<close> has a first argument.
\<close>

definition make_bids_folders ::
  "os \<Rightarrow> pyval \<Rightarrow> pyval \<Rightarrow> pyval \<Rightarrow> pyval \<Rightarrow> bool \<Rightarrow> bool \<Rightarrow> bool \<Rightarrow> world
     \<Rightarrow> (error + string) \<times> world" where
  "make_bids_folders os subject session kind root make_dir overwrite verbose w =
     (case check_types [subject, kind, session, root] of
        Inl e \<Rightarrow> (Inl e, w)
      | Inr u \<Rightarrow>
          (case (if session \<noteq> PNone then check_key_val ''ses'' session
                 else Inr (''ses'', session)) of
             Inl e \<Rightarrow> (Inl e, w)
           | Inr kv \<Rightarrow>
               let path0 = [''sub-'' @ py_str subject];
                   path1 = (if isinstance_str session
                            then path0 @ [''ses-'' @ py_str session] else path0);
                   path2 = (if isinstance_str kind then path1 @ [py_str kind] else path1);
                   path3 = os_path_join (hd path2) (tl path2);
                   path = (if isinstance_str root
                           then os_path_join (py_str root) [path3] else path3)
               in if make_dir
                  then (case mkdir_p os path overwrite verbose w of
                          (Inl e, w1) \<Rightarrow> (Inl e, w1)
                        | (Inr u, w1) \<Rightarrow> (Inr path, w1))
                  else (Inr path, w)))"

section \<open>Copying a BrainVision file\<close>

subsection \<open>String methods\<close>

text \<open>
  The characters \<^verbatim>\<open>str.strip()\<close> removes: the white space of Python 3 among the code
  points below 256.
\<close>

definition whitespace :: "char list" where
  "whitespace = [CHR 0x09, CHR 0x0A, CHR 0x0B, CHR 0x0C, CHR 0x0D, CHR 0x1C, CHR 0x1D,
                 CHR 0x1E, CHR 0x1F, CHR 0x20, CHR 0x85, CHR 0xA0]"

definition is_space :: "char \<Rightarrow> bool" where
  "is_space c = (c \<in> set whitespace)"

definition py_strip :: "string \<Rightarrow> string" where
  "py_strip s = rev (dropWhile is_space (rev (dropWhile is_space s)))"

text \<open>
  \<^verbatim>\<open>s.replace(old, new)\<close>: the occurrences of \<^verbatim>\<open>old\<close> are found from the left and do not
  overlap; an empty \<^verbatim>\<open>old\<close> matches before every character and at the end.
\<close>

function py_replace :: "string \<Rightarrow> string \<Rightarrow> string \<Rightarrow> string" where
  "py_replace old new s =
     (if old = [] then new @ concat (map (\<lambda>c. c # new) s)
      else if s = [] then []
      else if take (length old) s = old
           then new @ py_replace old new (drop (length old) s)
           else hd s # py_replace old new (tl s))"
  by pat_completeness auto
termination
  by (relation "measure (\<lambda>(old, new, s). length s)") auto

declare py_replace.simps [simp del]

text \<open>
  \<^verbatim>\<open>f.readlines()\<close>: the text cut after every newline, each line keeping its newline; the
  last line has none when the text does not end with one.
\<close>

fun py_readlines :: "string \<Rightarrow> string list" where
  "py_readlines [] = []"
| "py_readlines (c # cs) =
     (if c = newline then [c] # py_readlines cs
      else (case py_readlines cs of
              [] \<Rightarrow> [[c]]
            | l # ls \<Rightarrow> (c # l) # ls))"

text \<open>\<^verbatim>\<open>s.split(c)\<close> for a separator of one character; the result is never empty.\<close>

fun py_split :: "char \<Rightarrow> string \<Rightarrow> string list" where
  "py_split c [] = [[]]"
| "py_split c (x # xs) =
     (if x = c then [] # py_split c xs
      else (case py_split c xs of
              [] \<Rightarrow> [[x]]
            | l # ls \<Rightarrow> (x # l) # ls))"

text \<open>\<^verbatim>\<open>str(xs)\<close> of a list of strings that need no escaping.\<close>

definition list_repr :: "string list \<Rightarrow> string" where
  "list_repr xs = ''['' @ py_join '', '' (map (\<lambda>x. [quote] @ x @ [quote]) xs) @ '']''"

subsection \<open>Files\<close>

text \<open>
  Opening a file for reading gives its text; opening it for writing creates it or empties
  it; both fail on a directory. The text of a file is what Python's text layer reads and
  writes, line ends being newlines. Permissions and missing parent directories are not part
  of the model. \<^verbatim>\<open>shutil.copyfile\<close> refuses to copy a file onto itself.
\<close>

definition open_read :: "fs \<Rightarrow> string \<Rightarrow> error + string" where
  "open_read fs path =
     (case fs path of
        None \<Rightarrow> Inl (IOError (Some ENOENT) (''No such file or directory: '' @ path))
      | Some Dir \<Rightarrow> Inl (IOError (Some EISDIR) (''Is a directory: '' @ path))
      | Some (File text) \<Rightarrow> Inr text)"

definition open_write :: "string \<Rightarrow> fs \<Rightarrow> (error + unit) \<times> fs" where
  "open_write path fs =
     (case fs path of
        Some Dir \<Rightarrow> (Inl (IOError (Some EISDIR) (''Is a directory: '' @ path)), fs)
      | _ \<Rightarrow> (Inr (), fs(path \<mapsto> File [])))"

definition file_write :: "string \<Rightarrow> string \<Rightarrow> fs \<Rightarrow> fs" where
  "file_write path text fs =
     (case fs path of
        Some (File old) \<Rightarrow> fs(path \<mapsto> File (old @ text))
      | _ \<Rightarrow> fs)"

definition sh_copyfile :: "string \<Rightarrow> string \<Rightarrow> fs \<Rightarrow> (error + unit) \<times> fs" where
  "sh_copyfile src dst fs =
     (if src = dst then (Inl (IOError None (src @ '' and '' @ dst @ '' are the same file'')), fs)
      else (case open_read fs src of
              Inl e \<Rightarrow> (Inl e, fs)
            | Inr text \<Rightarrow>
                (case open_write dst fs of
                   (Inl e, fs1) \<Rightarrow> (Inl e, fs1)
                 | (Inr u, fs1) \<Rightarrow> (Inr (), file_write dst text fs1))))"

subsection \<open>The copy\<close>

definition bv_ext :: "string list" where
  "bv_ext = [''.eeg'', ''.vhdr'', ''.vmrk'']"

text \<open>The loop that writes the destination, one line at a time.\<close>

fun write_lines ::
  "string list \<Rightarrow> string \<Rightarrow> string \<Rightarrow> string \<Rightarrow> string list \<Rightarrow> fs \<Rightarrow> fs" where
  "write_lines search_lines basename_src basename_dest dest [] fs = fs"
| "write_lines search_lines basename_src basename_dest dest (line # lines) fs =
     write_lines search_lines basename_src basename_dest dest lines
       (if py_strip line \<in> set search_lines
        then file_write dest (py_replace basename_src basename_dest line) fs
        else file_write dest line fs)"

text \<open>
  \<^verbatim>\<open>copyfile_brainvision\<close>. The helper \<^verbatim>\<open>_parse_ext\<close> is imported from
  \<^verbatim>\<open>mne_bids/io.py\<close>, which is not among the sources; it is the first parameter and maps a
  path to the pair of the name without extension and the extension.
\<close>

definition copyfile_brainvision ::
  "(string \<Rightarrow> string \<times> string) \<Rightarrow> string \<Rightarrow> string \<Rightarrow> fs \<Rightarrow> (error + unit) \<times> fs" where
  "copyfile_brainvision parse_ext src dest fs =
     (if \<not> os_path_exists fs src
      then (Inl (IOError None (''File does not exist: '' @ src @ [newline])), fs)
      else
        (case parse_ext src of (fname_src, ext_src) \<Rightarrow>
         case parse_ext dest of (fname_dest, ext_dest) \<Rightarrow>
           if ext_src \<noteq> ext_dest
           then (Inl (ValueError (''Need to move data with same extension but got ''
                                  @ ext_src @ '', '' @ ext_dest)), fs)
           else if ext_src \<notin> set bv_ext
           then (Inl (ValueError (''Expecting file ending in one of '' @ list_repr bv_ext
                                  @ '', but got '' @ ext_src)), fs)
           else if ext_src = ''.eeg'' then sh_copyfile src dest fs
           else
             let basename_src = last (py_split os_sep fname_src);
                 basename_dest = last (py_split os_sep fname_dest);
                 search_lines = [''DataFile='' @ basename_src @ ''.eeg'',
                                 ''MarkerFile='' @ basename_src @ ''.vmrk'']
             in (case open_read fs src of
                   Inl e \<Rightarrow> (Inl e, fs)
                 | Inr text \<Rightarrow>
                     (case open_write dest fs of
                        (Inl e, fs1) \<Rightarrow> (Inl e, fs1)
                      | (Inr u, fs1) \<Rightarrow>
                          (Inr (), write_lines search_lines basename_src basename_dest dest
                                     (py_readlines text) fs1)))))"

text \<open>
  Modelled from the spec: \<^verbatim>\<open>_parse_ext\<close> of \<^verbatim>\<open>mne_bids/io.py\<close> is missing from the
  sources. The specification names it the extension-classification primitive and says no
  more; \<^verbatim>\<open>copyfile_brainvision\<close> takes from it the name without extension and the
  extension. This instance cuts a path at the last dot of its last component. The theorems
  below hold for every such function; the instance serves to run the copy on concrete paths.
\<close>

definition parse_ext_model :: "string \<Rightarrow> string \<times> string" where
  "parse_ext_model raw_fname =
     (let base = last (py_split os_sep raw_fname);
          ext = rev (takeWhile (\<lambda>c. c \<noteq> CHR ''.'') (rev base))
      in if CHR ''.'' \<in> set base
         then (take (length raw_fname - Suc (length ext)) raw_fname, CHR ''.'' # ext)
         else (raw_fname, []))"

text \<open>
  Small file systems to run the copy on: a header, a marker file that also names itself,
  a header whose references are indented, and a directory; and a header whose basename is
  the single letter \<^verbatim>\<open>a\<close>.
\<close>

definition vhdr_text :: string where
  "vhdr_text = ''Brain Vision Data Exchange Header File Version 1.0\<newline>\<newline>[Common Infos]\<newline>''
     @ ''DataFile=foo.eeg\<newline>MarkerFile=foo.vmrk\<newline>DataFormat=BINARY\<newline>''"

definition vmrk_text :: string where
  "vmrk_text = ''[Common Infos]\<newline>DataFile=foo.eeg\<newline>MarkerFile=foo.vmrk\<newline>''"

definition padded_text :: string where
  "padded_text = ''  DataFile=foo.eeg \<newline>DataFile = foo.eeg\<newline>''"

definition sample_fs :: fs where
  "sample_fs = [''foo.vhdr'' \<mapsto> File vhdr_text, ''foo.vmrk'' \<mapsto> File vmrk_text,
                ''pad/foo.vhdr'' \<mapsto> File padded_text, ''pad'' \<mapsto> Dir]"

definition short_fs :: fs where
  "short_fs = [''a.vhdr'' \<mapsto> File ''DataFile=a.eeg\<newline>MarkerFile=a.vmrk\<newline>'']"

section \<open>Notions used to state the properties of the folder builder\<close>






section \<open>Notions used to state the properties of the copy\<close>

text \<open>
  What the loop writes for one line, the two reference lines for a source basename, and the
  basename of a name without extension.
\<close>

definition rewrite_line :: "string list \<Rightarrow> string \<Rightarrow> string \<Rightarrow> string \<Rightarrow> string" where
  "rewrite_line search_lines basename_src basename_dest line =
     (if py_strip line \<in> set search_lines
      then py_replace basename_src basename_dest line else line)"

definition search_lines_of :: "string \<Rightarrow> string list" where
  "search_lines_of basename_src =
     [''DataFile='' @ basename_src @ ''.eeg'', ''MarkerFile='' @ basename_src @ ''.vmrk'']"

definition basename_of :: "string \<Rightarrow> string" where
  "basename_of fname = last (py_split os_sep fname)"


section \<open>Properties of the validators and of the filename builder\<close>

lemma check_types_ok: "list_all str_or_none vs \<Longrightarrow> check_types vs = Inr ()"
  by (induction vs) (auto simp: str_or_none_def)

lemma check_types_Inr: "check_types vs = Inr u \<Longrightarrow> list_all str_or_none vs"
  by (induction vs) (auto simp: str_or_none_def split: if_splits)

lemma check_types_Inl: "check_types vs = Inl e \<Longrightarrow> \<exists>m. e = ValueError m"
  by (induction vs) (auto split: if_splits)

lemma filename_loop_Inr:
  "filename_loop items acc = Inr r \<Longrightarrow>
     r = acc @ concat (map (\<lambda>kv. entity_token (fst kv) (snd kv)) items)
     \<and> list_all (\<lambda>kv. str_or_none (snd kv) \<and> \<not> bad_value (snd kv)) items"
proof (induction items arbitrary: acc)
  case Nil
  then show ?case by simp
next
  case (Cons kv items)
  obtain k v where kv: "kv = (k, v)" by (cases kv)
  show ?case
  proof (cases v)
    case PNone
    with Cons kv show ?thesis by (simp add: entity_token_def str_or_none_def bad_value_def)
  next
    case (PStr s)
    with Cons.prems kv have ok: "\<not> list_ex (\<lambda>ii. ii \<in> set s) forbidden"
      and rest: "filename_loop items (acc @ [k @ ''-'' @ s]) = Inr r"
      by (auto simp: check_key_val_def split: if_splits)
    from Cons.IH[OF rest] ok PStr kv show ?thesis
      by (simp add: entity_token_def str_or_none_def bad_value_def)
  next
    case (PInt i)
    with Cons.prems kv show ?thesis by (simp add: check_key_val_def)
  qed
qed

lemma filename_loop_ok:
  "list_all (\<lambda>kv. str_or_none (snd kv) \<and> \<not> bad_value (snd kv)) items \<Longrightarrow>
   filename_loop items acc = Inr (acc @ concat (map (\<lambda>kv. entity_token (fst kv) (snd kv)) items))"
proof (induction items arbitrary: acc)
  case Nil
  then show ?case by simp
next
  case (Cons kv items)
  obtain k v where kv: "kv = (k, v)" by (cases kv)
  with Cons show ?case
    by (cases v) (auto simp: entity_token_def str_or_none_def bad_value_def check_key_val_def)
qed

lemma filename_loop_bad:
  "list_all (\<lambda>kv. str_or_none (snd kv)) items \<Longrightarrow>
   find (\<lambda>kv. bad_value (snd kv)) items = Some (k, v) \<Longrightarrow>
   filename_loop items acc = Inl (ValueError (unallowed_msg k (py_str v)))"
proof (induction items arbitrary: acc)
  case Nil
  then show ?case by simp
next
  case (Cons kv items)
  obtain k' v' where kv: "kv = (k', v')" by (cases kv)
  with Cons show ?case
    by (cases v') (auto simp: str_or_none_def bad_value_def check_key_val_def split: if_splits)
qed

text \<open>The steps of \<^verbatim>\<open>make_bids_filename\<close>, one lemma each.\<close>

lemma order_eq:
  "(case run of
      PInt i \<Rightarrow> AList.update ''run'' (PStr (format_02 i))
                  [(''sub'', subject), (''ses'', session), (''task'', task),
                   (''acq'', acquisition), (''run'', run), (''proc'', processing),
                   (''space'', space), (''recording'', recording)]
    | _ \<Rightarrow> [(''sub'', subject), (''ses'', session), (''task'', task),
            (''acq'', acquisition), (''run'', run), (''proc'', processing),
            (''space'', space), (''recording'', recording)])
   = entity_table subject session task acquisition run processing recording space"
  by (cases run) (simp_all add: entity_table_def norm_run_def)

lemma keys_guard:
  "list_ex isinstance_str
     (map (\<lambda>kv. PStr (fst kv))
        (entity_table subject session task acquisition run processing recording space))"
  by (simp add: entity_table_def)

lemma suffix_eq:
  "(if isinstance_str suffix then f @ [py_str suffix] else f)
   = f @ (case suffix of PStr s \<Rightarrow> [s] | _ \<Rightarrow> [])"
  by (cases suffix) simp_all

lemma prefix_eq:
  "(if isinstance_str prefix then os_path_join (py_str prefix) [name] else name)
   = (case prefix of PStr p \<Rightarrow> os_path_join p [name] | _ \<Rightarrow> name)"
  by (cases prefix) simp_all

lemma make_bids_filename_unfold:
  "make_bids_filename subject session task acquisition run processing recording space suffix prefix =
     (case check_types (map snd (entity_table subject session task acquisition run processing recording space)) of
        Inl e \<Rightarrow> Inl e
      | Inr u \<Rightarrow>
          (case filename_loop (entity_table subject session task acquisition run processing recording space) [] of
             Inl e \<Rightarrow> Inl e
           | Inr f \<Rightarrow>
               Inr (case prefix of
                      PStr p \<Rightarrow> os_path_join p [py_join ''_'' (f @ (case suffix of PStr s \<Rightarrow> [s] | _ \<Rightarrow> []))]
                    | _ \<Rightarrow> py_join ''_'' (f @ (case suffix of PStr s \<Rightarrow> [s] | _ \<Rightarrow> [])))))"
  unfolding make_bids_filename_def Let_def order_eq suffix_eq prefix_eq
  by (simp only: keys_guard not_True_eq_False if_False)

lemma tokens_table:
  "concat (map (\<lambda>kv. entity_token (fst kv) (snd kv))
      (entity_table subject session task acquisition run processing recording space))
   = entity_token ''sub'' subject @ entity_token ''ses'' session
     @ entity_token ''task'' task @ entity_token ''acq'' acquisition
     @ entity_token ''run'' (norm_run run) @ entity_token ''proc'' processing
     @ entity_token ''space'' space @ entity_token ''recording'' recording"
  unfolding entity_table_def by (simp only: list.map concat.simps fst_conv snd_conv append_Nil2 append_assoc)

lemma values_table:
  "map snd (entity_table subject session task acquisition run processing recording space)
   = [subject, session, task, acquisition, norm_run run, processing, space, recording]"
  unfolding entity_table_def by (simp only: list.map snd_conv)

lemma make_bids_filename_Inr:
  assumes "make_bids_filename subject session task acquisition run processing recording space suffix prefix = Inr name"
  shows "name = canonical_name subject session task acquisition run processing recording space suffix prefix"
proof -
  let ?T = "entity_table subject session task acquisition run processing recording space"
  from assms obtain f where f: "filename_loop ?T [] = Inr f"
    and name: "name = (case prefix of
                      PStr p \<Rightarrow> os_path_join p [py_join ''_'' (f @ (case suffix of PStr s \<Rightarrow> [s] | _ \<Rightarrow> []))]
                    | _ \<Rightarrow> py_join ''_'' (f @ (case suffix of PStr s \<Rightarrow> [s] | _ \<Rightarrow> [])))"
    unfolding make_bids_filename_unfold by (auto split: sum.splits)
  from filename_loop_Inr[OF f]
  have "f = concat (map (\<lambda>kv. entity_token (fst kv) (snd kv)) ?T)" by simp
  then have "f = entity_token ''sub'' subject @ entity_token ''ses'' session
     @ entity_token ''task'' task @ entity_token ''acq'' acquisition
     @ entity_token ''run'' (norm_run run) @ entity_token ''proc'' processing
     @ entity_token ''space'' space @ entity_token ''recording'' recording"
    by (simp only: tokens_table)
  then show ?thesis unfolding name canonical_name_def Let_def by (simp only: append_assoc)
qed

lemma make_bids_filename_valid:
  assumes "list_all (\<lambda>v. str_or_none v \<and> \<not> bad_value v)
             [subject, session, task, acquisition, norm_run run, processing, space, recording]"
  shows "make_bids_filename subject session task acquisition run processing recording space suffix prefix
         = Inr (canonical_name subject session task acquisition run processing recording space suffix prefix)"
proof -
  let ?T = "entity_table subject session task acquisition run processing recording space"
  from assms have "list_all (\<lambda>v. str_or_none v \<and> \<not> bad_value v) (map snd ?T)"
    by (simp only: values_table)
  then have v: "list_all (\<lambda>kv. str_or_none (snd kv) \<and> \<not> bad_value (snd kv)) ?T"
    by (simp add: list_all_iff)
  then have "list_all (\<lambda>kv. str_or_none (snd kv)) ?T"
    by (simp add: list_all_iff)
  then have t: "list_all str_or_none (map snd ?T)"
    by (simp add: list_all_iff)
  show ?thesis
    unfolding make_bids_filename_unfold check_types_ok[OF t] filename_loop_ok[OF v] tokens_table
      canonical_name_def Let_def
    by (simp only: sum.case append_Nil append_assoc)
qed

lemma make_bids_filename_invalid:
  assumes "list_all str_or_none
             [subject, session, task, acquisition, norm_run run, processing, space, recording]"
    and "find (\<lambda>kv. bad_value (snd kv))
           (entity_table subject session task acquisition run processing recording space) = Some (k, v)"
  shows "make_bids_filename subject session task acquisition run processing recording space suffix prefix
         = Inl (ValueError (unallowed_msg k (py_str v)))"
proof -
  let ?T = "entity_table subject session task acquisition run processing recording space"
  from assms(1) have t: "list_all str_or_none (map snd ?T)"
    by (simp only: values_table)
  from t have t': "list_all (\<lambda>kv. str_or_none (snd kv)) ?T"
    by (simp add: list_all_iff)
  show ?thesis
    unfolding make_bids_filename_unfold check_types_ok[OF t] filename_loop_bad[OF t' assms(2)]
    by (simp only: sum.case)
qed

lemma make_bids_filename_bad_fails:
  assumes "list_ex bad_value
             [subject, session, task, acquisition, norm_run run, processing, space, recording]"
  shows "\<exists>m. make_bids_filename subject session task acquisition run processing recording space suffix prefix
         = Inl (ValueError m)"
proof -
  let ?T = "entity_table subject session task acquisition run processing recording space"
  let ?r = "make_bids_filename subject session task acquisition run processing recording space suffix prefix"
  show ?thesis
  proof (cases "check_types (map snd ?T)")
    case (Inl e)
    then have "?r = Inl e" unfolding make_bids_filename_unfold by (simp only: sum.case)
    with check_types_Inl[OF Inl] show ?thesis by auto
  next
    case (Inr u)
    from check_types_Inr[OF Inr] have t: "list_all (\<lambda>kv. str_or_none (snd kv)) ?T"
      by (simp add: list_all_iff)
    from assms have "list_ex bad_value (map snd ?T)"
      by (simp only: values_table)
    then have "\<exists>kv \<in> set ?T. bad_value (snd kv)"
      by (simp add: list_ex_iff)
    then obtain kv where "find (\<lambda>kv. bad_value (snd kv)) ?T = Some kv"
      by (cases "find (\<lambda>kv. bad_value (snd kv)) ?T") (auto simp: find_None_iff)
    then have "find (\<lambda>kv. bad_value (snd kv)) ?T = Some (fst kv, snd kv)" by simp
    from filename_loop_bad[OF t this] Inr have "?r = Inl (ValueError (unallowed_msg (fst kv) (py_str (snd kv))))"
      unfolding make_bids_filename_unfold by (simp only: sum.case)
    then show ?thesis by blast
  qed
qed

subsection \<open>Decimal numerals\<close>

lemma digit_nth: "k < 10 \<Longrightarrow> of_char (digits ! k) = (48 + k :: nat)"
proof -
  assume "k < 10"
  then have "k \<in> {0,1,2,3,4,5,6,7,8,9}" by auto
  then show ?thesis by (auto simp: digits_def)
qed

lemma digit_mem: "k < 10 \<Longrightarrow> digits ! k \<in> set digits"
proof -
  assume "k < 10"
  moreover have "length digits = 10" by (simp add: digits_def)
  ultimately have "k < length digits" by simp
  then show ?thesis by (rule nth_mem)
qed

lemma string_of_nat_digits: "set (string_of_nat n) \<subseteq> set digits"
proof (induction n rule: string_of_nat.induct)
  case (1 n)
  show ?case
  proof (cases "n < 10")
    case True
    then show ?thesis using digit_mem[of n] by (subst string_of_nat.simps) simp
  next
    case False
    have "n mod 10 < 10" by simp
    from digit_mem[OF this] "1"[OF False] False show ?thesis
      by (subst string_of_nat.simps) simp
  qed
qed

lemma nat_of_string_snoc: "nat_of_string (s @ [c]) = 10 * nat_of_string s + (of_char c - 48)"
  by (simp add: nat_of_string_def)

lemma nat_of_string_of_nat: "nat_of_string (string_of_nat n) = n"
proof (induction n rule: string_of_nat.induct)
  case (1 n)
  show ?case
  proof (cases "n < 10")
    case True
    then show ?thesis using digit_nth[of n]
      by (subst string_of_nat.simps) (simp add: nat_of_string_def)
  next
    case False
    have "n mod 10 < 10" by simp
    from digit_nth[OF this] "1"[OF False] False show ?thesis
      by (subst string_of_nat.simps) (simp add: nat_of_string_snoc)
  qed
qed

lemma string_of_nat_nonempty: "string_of_nat n \<noteq> []"
  by (subst string_of_nat.simps) simp

lemma length_string_of_nat: "length (string_of_nat n) = Suc 0 \<longleftrightarrow> n < 10"
proof (cases "n < 10")
  case True
  then show ?thesis by (subst string_of_nat.simps) simp
next
  case False
  with string_of_nat_nonempty[of "n div 10"] show ?thesis
    by (subst string_of_nat.simps) simp
qed

lemma format_02_nonneg:
  assumes "0 \<le> i"
  shows "format_02 i = (if i < 10 then CHR ''0'' # string_of_nat (nat i) else string_of_nat (nat i))"
proof -
  from assms have s: "string_of_int i = string_of_nat (nat i)" by (simp add: string_of_int_def)
  have ne: "length (string_of_nat (nat i)) \<noteq> 0" using string_of_nat_nonempty by simp
  show ?thesis
  proof (cases "i < 10")
    case True
    with assms have "nat i < 10" by simp
    then have "length (string_of_nat (nat i)) = Suc 0" by (simp add: length_string_of_nat)
    with True show ?thesis by (simp add: format_02_def s Let_def)
  next
    case False
    then have "\<not> nat i < 10" by simp
    then have "length (string_of_nat (nat i)) \<noteq> Suc 0" by (simp add: length_string_of_nat)
    with ne have "\<not> length (string_of_nat (nat i)) < 2" by arith
    with False show ?thesis by (simp add: format_02_def s Let_def)
  qed
qed

lemma format_02_good:
  assumes "0 \<le> i"
  shows "\<not> bad_value (PStr (format_02 i))"
proof -
  have "set (format_02 i) \<subseteq> set digits"
    using string_of_nat_digits[of "nat i"] assms
    by (auto simp: format_02_nonneg digits_def)
  then show ?thesis by (auto simp: bad_value_def forbidden_def digits_def)
qed

subsection \<open>The order of the tokens\<close>

lemma make_bids_filename_kw_perm:
  assumes "distinct (map fst kwargs)" "distinct (map fst kwargs')" "set kwargs' = set kwargs"
    and "list_all (\<lambda>kv. fst kv \<in> set param_names) kwargs"
  shows "make_bids_filename_kw kwargs' = make_bids_filename_kw kwargs"
proof -
  from assms(1-3) have m: "map_of kwargs' = map_of kwargs"
    by (simp add: map_of_inject_set)
  from assms(4) have "find (\<lambda>kv. fst kv \<notin> set param_names) kwargs = None"
    by (auto simp: find_None_iff list_all_iff)
  moreover from assms(3,4) have "find (\<lambda>kv. fst kv \<notin> set param_names) kwargs' = None"
    by (auto simp: find_None_iff list_all_iff)
  ultimately show ?thesis by (simp add: make_bids_filename_kw_def kwarg_def m)
qed

lemma example_name:
  "make_bids_filename (PStr ''test'') (PStr ''two'') (PStr ''mytask'') PNone PNone PNone PNone PNone
          (PStr ''data.csv'') PNone = Inr ''sub-test_ses-two_task-mytask_data.csv''"
  by (simp add: make_bids_filename_def check_key_val_def forbidden_def)

lemma example_name_kw:
  "make_bids_filename_kw [(''suffix'', PStr ''data.csv''), (''task'', PStr ''mytask''),
          (''session'', PStr ''two''), (''subject'', PStr ''test'')]
        = Inr ''sub-test_ses-two_task-mytask_data.csv''"
  by (simp add: make_bids_filename_kw_def kwarg_def param_names_def example_name)

text \<open>
  Claim C2. Whatever entities are given, and in whatever order the keyword arguments are
  written at the call, the name returned by \<^verbatim>\<open>make_bids_filename\<close> lists the tokens of
  the entities that are not \<^verbatim>\<open>None\<close> in the order sub, ses, task, acq, run, proc, space,
  recording, each as \<^verbatim>\<open>key-value\<close>, joined by an underscore, with a string suffix as the
  last token (\<^const>\<open>canonical_name\<close>). The call returns that name whenever every given
  value is a string without a separator character (the run number after formatting); a call
  that returns at all returns it; a call with the same keyword arguments in another order gives
  the same result; and the example of the docstring yields
  \<^verbatim>\<open>sub-test_ses-two_task-mytask_data.csv\<close>.
\<close>

theorem make_bids_filename_canonical_order:
  "(list_all (\<lambda>v. str_or_none v \<and> \<not> bad_value v)
       [subject, session, task, acquisition, norm_run run, processing, space, recording]
     \<longrightarrow> make_bids_filename subject session task acquisition run processing recording space
           suffix prefix
         = Inr (canonical_name subject session task acquisition run processing recording space
                  suffix prefix))
   \<and> (\<forall>name. make_bids_filename subject session task acquisition run processing recording space
                suffix prefix = Inr name
         \<longrightarrow> name = canonical_name subject session task acquisition run processing recording
                       space suffix prefix)
   \<and> (distinct (map fst kwargs) \<and> distinct (map fst kwargs') \<and> set kwargs' = set kwargs
        \<and> list_all (\<lambda>kv. fst kv \<in> set param_names) kwargs
      \<longrightarrow> make_bids_filename_kw kwargs' = make_bids_filename_kw kwargs)
   \<and> make_bids_filename_kw [(''suffix'', PStr ''data.csv''), (''task'', PStr ''mytask''),
          (''session'', PStr ''two''), (''subject'', PStr ''test'')]
        = Inr ''sub-test_ses-two_task-mytask_data.csv''
   \<and> make_bids_filename (PStr ''test'') (PStr ''two'') (PStr ''mytask'') PNone PNone PNone PNone PNone
          (PStr ''data.csv'') PNone = Inr ''sub-test_ses-two_task-mytask_data.csv''"
proof (intro conjI impI allI)
  assume "list_all (\<lambda>v. str_or_none v \<and> \<not> bad_value v)
       [subject, session, task, acquisition, norm_run run, processing, space, recording]"
  then show "make_bids_filename subject session task acquisition run processing recording space
           suffix prefix
         = Inr (canonical_name subject session task acquisition run processing recording space
                  suffix prefix)"
    by (rule make_bids_filename_valid)
next
  fix name
  assume "make_bids_filename subject session task acquisition run processing recording space
                suffix prefix = Inr name"
  then show "name = canonical_name subject session task acquisition run processing recording
                       space suffix prefix"
    by (rule make_bids_filename_Inr)
next
  assume "distinct (map fst kwargs) \<and> distinct (map fst kwargs') \<and> set kwargs' = set kwargs
        \<and> list_all (\<lambda>kv. fst kv \<in> set param_names) kwargs"
  then show "make_bids_filename_kw kwargs' = make_bids_filename_kw kwargs"
    using make_bids_filename_kw_perm by blast
qed (rule example_name_kw example_name)+

theorem make_bids_filename_canonical_order_witness:
  "make_bids_filename (PStr ''01'') PNone (PStr ''rest'') PNone (PInt 3) PNone (PStr ''r'')
       (PStr ''sp'') (PStr ''meg.fif'') (PStr ''out'')
     = Inr ''out/sub-01_task-rest_run-03_space-sp_recording-r_meg.fif''
   \<and> make_bids_filename_kw [(''run'', PInt 3), (''subject'', PStr ''01'')]
     = make_bids_filename_kw [(''subject'', PStr ''01''), (''run'', PInt 3)]"
proof -
  note inst = make_bids_filename_canonical_order
    [of "PStr ''01''" PNone "PStr ''rest''" PNone "PInt 3" PNone "PStr ''sp''" "PStr ''r''"
        "PStr ''meg.fif''" "PStr ''out''"
        "[(''subject'', PStr ''01''), (''run'', PInt 3)]"
        "[(''run'', PInt 3), (''subject'', PStr ''01'')]"]
  have f: "format_02 3 = ''03''"
    by (simp add: format_02_def string_of_int_def string_of_nat.simps digits_def)
  have h1: "list_all (\<lambda>v. str_or_none v \<and> \<not> bad_value v)
       [PStr ''01'', PNone, PStr ''rest'', PNone, norm_run (PInt 3), PNone, PStr ''sp'', PStr ''r'']"
    by (simp add: str_or_none_def bad_value_def norm_run_def forbidden_def f)
  have h2: "distinct (map fst [(''subject'', PStr ''01''), (''run'', PInt 3)])
      \<and> distinct (map fst [(''run'', PInt 3), (''subject'', PStr ''01'')])
      \<and> set [(''run'', PInt 3), (''subject'', PStr ''01'')]
          = set [(''subject'', PStr ''01''), (''run'', PInt 3)]
      \<and> list_all (\<lambda>kv. fst kv \<in> set param_names) [(''subject'', PStr ''01''), (''run'', PInt 3)]"
    by (auto simp: param_names_def)
  have c: "canonical_name (PStr ''01'') PNone (PStr ''rest'') PNone (PInt 3) PNone (PStr ''r'')
       (PStr ''sp'') (PStr ''meg.fif'') (PStr ''out'')
      = ''out/sub-01_task-rest_run-03_space-sp_recording-r_meg.fif''"
    by (simp add: canonical_name_def entity_token_def norm_run_def f startswith_sep_def
          endswith_sep_def sep_def os_sep_def)
  note a = inst[THEN conjunct1, rule_format, OF h1]
  note b = inst[THEN conjunct2, THEN conjunct2, THEN conjunct1, rule_format, OF h2]
  from a[unfolded c] b show ?thesis by (rule conjI)
qed

subsection \<open>Rejected values\<close>

lemma bad_value_iff:
  "bad_value v \<longleftrightarrow> (\<exists>s. v = PStr s \<and> (CHR ''-'' \<in> set s \<or> CHR ''_'' \<in> set s \<or> CHR ''/'' \<in> set s))"
  by (cases v) (auto simp: bad_value_def forbidden_def)

lemma check_key_val_str:
  "check_key_val key (PStr s) =
     (if CHR ''-'' \<in> set s \<or> CHR ''_'' \<in> set s \<or> CHR ''/'' \<in> set s
      then Inl (ValueError (unallowed_msg key s)) else Inr (key, PStr s))"
  by (simp add: check_key_val_def forbidden_def)

text \<open>
  Claim C3. The validator fails with the error "Unallowed ... found in key/value pair" when
  the value contains a hyphen, an underscore or a slash, and returns the pair unchanged when
  it contains none of them. A call of \<^verbatim>\<open>make_bids_filename\<close> in which some entity value
  contains one of the three characters fails with a \<^verbatim>\<open>ValueError\<close> and so returns no name
  at all; when every value is a string or \<^verbatim>\<open>None\<close> the error is the validator's, for the
  first offending entity in the order of the table.
\<close>

theorem check_key_val_rejects_separators:
  "(CHR ''-'' \<in> set s \<or> CHR ''_'' \<in> set s \<or> CHR ''/'' \<in> set s
      \<longrightarrow> check_key_val key (PStr s) = Inl (ValueError (unallowed_msg key s)))
   \<and> (CHR ''-'' \<notin> set s \<and> CHR ''_'' \<notin> set s \<and> CHR ''/'' \<notin> set s
      \<longrightarrow> check_key_val key (PStr s) = Inr (key, PStr s))
   \<and> (bad_value v \<longleftrightarrow>
        (\<exists>s. v = PStr s \<and> (CHR ''-'' \<in> set s \<or> CHR ''_'' \<in> set s \<or> CHR ''/'' \<in> set s)))
   \<and> (list_ex bad_value
         [subject, session, task, acquisition, norm_run run, processing, space, recording]
      \<longrightarrow> (\<exists>m. make_bids_filename subject session task acquisition run processing recording
                  space suffix prefix = Inl (ValueError m)))
   \<and> (list_all str_or_none
         [subject, session, task, acquisition, norm_run run, processing, space, recording]
        \<and> find (\<lambda>kv. bad_value (snd kv))
             (entity_table subject session task acquisition run processing recording space)
            = Some (k, w)
      \<longrightarrow> make_bids_filename subject session task acquisition run processing recording space
             suffix prefix = Inl (ValueError (unallowed_msg k (py_str w))))"
proof (intro conjI impI)
  assume "list_ex bad_value
         [subject, session, task, acquisition, norm_run run, processing, space, recording]"
  then show "\<exists>m. make_bids_filename subject session task acquisition run processing recording
                  space suffix prefix = Inl (ValueError m)"
    by (rule make_bids_filename_bad_fails)
next
  assume "list_all str_or_none
         [subject, session, task, acquisition, norm_run run, processing, space, recording]
        \<and> find (\<lambda>kv. bad_value (snd kv))
             (entity_table subject session task acquisition run processing recording space)
            = Some (k, w)"
  then show "make_bids_filename subject session task acquisition run processing recording space
             suffix prefix = Inl (ValueError (unallowed_msg k (py_str w)))"
    using make_bids_filename_invalid by blast
qed (simp_all add: check_key_val_str bad_value_iff)

theorem check_key_val_rejects_separators_witness:
  "check_key_val ''sub'' (PStr ''one-two'') = Inl (ValueError (unallowed_msg ''sub'' ''one-two''))
   \<and> check_key_val ''ses'' (PStr ''two'') = Inr (''ses'', PStr ''two'')
   \<and> (\<exists>m. make_bids_filename (PStr ''one'') PNone (PStr ''my_task'') PNone PNone PNone PNone PNone
            (PStr ''ieeg.csv'') PNone = Inl (ValueError m))
   \<and> make_bids_filename (PStr ''one'') PNone (PStr ''my_task'') PNone PNone PNone PNone
         (PStr ''a/b'') (PStr ''ieeg.csv'') PNone
       = Inl (ValueError (unallowed_msg ''task'' ''my_task''))"
proof -
  note i1 = check_key_val_rejects_separators[of "''one-two''" "''sub''"]
  note i2 = check_key_val_rejects_separators[of "''two''" "''ses''"]
  note i3 = check_key_val_rejects_separators
    [of _ _ _ "PStr ''one''" PNone "PStr ''my_task''" PNone PNone PNone PNone PNone
        "PStr ''ieeg.csv''" PNone]
  note i4 = check_key_val_rejects_separators
    [of _ _ _ "PStr ''one''" PNone "PStr ''my_task''" PNone PNone PNone "PStr ''a/b''" PNone
        "PStr ''ieeg.csv''" PNone "''task''" "PStr ''my_task''"]
  have a: "check_key_val ''sub'' (PStr ''one-two'') = Inl (ValueError (unallowed_msg ''sub'' ''one-two''))"
    using i1[THEN conjunct1] by simp
  have b: "check_key_val ''ses'' (PStr ''two'') = Inr (''ses'', PStr ''two'')"
    using i2[THEN conjunct2, THEN conjunct1] by simp
  have h3: "list_ex bad_value [PStr ''one'', PNone, PStr ''my_task'', PNone, norm_run PNone, PNone, PNone, PNone]"
    by (simp add: bad_value_def forbidden_def norm_run_def)
  note c = i3[THEN conjunct2, THEN conjunct2, THEN conjunct2, THEN conjunct1, rule_format, OF h3]
  have h4: "list_all str_or_none
         [PStr ''one'', PNone, PStr ''my_task'', PNone, norm_run PNone, PNone, PStr ''a/b'', PNone]
        \<and> find (\<lambda>kv. bad_value (snd kv))
             (entity_table (PStr ''one'') PNone (PStr ''my_task'') PNone PNone PNone PNone (PStr ''a/b''))
            = Some (''task'', PStr ''my_task'')"
    by (simp add: str_or_none_def bad_value_def forbidden_def norm_run_def entity_table_def)
  have d: "make_bids_filename (PStr ''one'') PNone (PStr ''my_task'') PNone PNone PNone PNone
         (PStr ''a/b'') (PStr ''ieeg.csv'') PNone
       = Inl (ValueError (unallowed_msg ''task'' ''my_task''))"
    using i4[THEN conjunct2, THEN conjunct2, THEN conjunct2, THEN conjunct2, rule_format, OF h4]
    by simp
  from a b c d show ?thesis by (intro conjI)
qed

subsection \<open>The run number\<close>

text \<open>
  Claim C8. A run number given as an integer is replaced by its \<^verbatim>\<open>{:02}\<close> format before
  anything else happens, so the call behaves as if that string had been passed. For a
  non-negative integer the format is the decimal numeral, with one leading zero below ten and
  unpadded from ten on: it has at least two characters, all of them digits, and reads back as
  the same number, so nothing is truncated. Alone, the run \<^verbatim>\<open>7\<close> gives \<^verbatim>\<open>run-07\<close>, the
  run \<^verbatim>\<open>123\<close> gives \<^verbatim>\<open>run-123\<close>, and a run given as the string \<^verbatim>\<open>'7'\<close> is used as
  it is and gives \<^verbatim>\<open>run-7\<close>.
\<close>

theorem make_bids_filename_run_token:
  "make_bids_filename subject session task acquisition (PInt i) processing recording space
        suffix prefix
     = make_bids_filename subject session task acquisition (PStr (format_02 i)) processing
         recording space suffix prefix
   \<and> (0 \<le> i \<longrightarrow>
         format_02 i = (if i < 10 then CHR ''0'' # string_of_nat (nat i) else string_of_nat (nat i))
         \<and> 2 \<le> length (format_02 i)
         \<and> set (format_02 i) \<subseteq> set digits
         \<and> nat_of_string (format_02 i) = nat i)
   \<and> (0 \<le> i \<longrightarrow>
         make_bids_filename PNone PNone PNone PNone (PInt i) PNone PNone PNone PNone PNone
           = Inr (''run-'' @ format_02 i))
   \<and> (\<not> bad_value (PStr s) \<longrightarrow>
         make_bids_filename PNone PNone PNone PNone (PStr s) PNone PNone PNone PNone PNone
           = Inr (''run-'' @ s))
   \<and> make_bids_filename PNone PNone PNone PNone (PInt 7) PNone PNone PNone PNone PNone
        = Inr ''run-07''
   \<and> make_bids_filename PNone PNone PNone PNone (PStr ''7'') PNone PNone PNone PNone PNone
        = Inr ''run-7''
   \<and> make_bids_filename PNone PNone PNone PNone (PInt 123) PNone PNone PNone PNone PNone
        = Inr ''run-123''"
proof (intro conjI impI)
  show "make_bids_filename subject session task acquisition (PInt i) processing recording space
        suffix prefix
     = make_bids_filename subject session task acquisition (PStr (format_02 i)) processing
         recording space suffix prefix"
    unfolding make_bids_filename_unfold entity_table_def norm_run_def by simp
next
  assume i: "0 \<le> i"
  then show f: "format_02 i = (if i < 10 then CHR ''0'' # string_of_nat (nat i) else string_of_nat (nat i))"
    by (rule format_02_nonneg)
  have ne: "string_of_nat (nat i) \<noteq> []" by (rule string_of_nat_nonempty)
  show "2 \<le> length (format_02 i)"
  proof (cases "i < 10")
    case True
    with ne show ?thesis by (simp add: f Suc_le_eq)
  next
    case False
    then have "\<not> nat i < 10" by simp
    then have "length (string_of_nat (nat i)) \<noteq> Suc 0" by (simp add: length_string_of_nat)
    moreover from ne have "length (string_of_nat (nat i)) \<noteq> 0" by simp
    ultimately have "2 \<le> length (string_of_nat (nat i))" by arith
    with False show ?thesis by (simp add: f)
  qed
  show "set (format_02 i) \<subseteq> set digits"
    using string_of_nat_digits[of "nat i"] by (auto simp: f digits_def)
  show "nat_of_string (format_02 i) = nat i"
    using nat_of_string_of_nat[of "nat i"] by (simp add: f nat_of_string_def)
next
  assume i: "0 \<le> i"
  have "list_all (\<lambda>v. str_or_none v \<and> \<not> bad_value v)
          [PNone, PNone, PNone, PNone, norm_run (PInt i), PNone, PNone, PNone]"
    using format_02_good[OF i] by (simp add: str_or_none_def bad_value_def norm_run_def)
  from make_bids_filename_valid[OF this]
  show "make_bids_filename PNone PNone PNone PNone (PInt i) PNone PNone PNone PNone PNone
           = Inr (''run-'' @ format_02 i)"
    by (simp add: canonical_name_def entity_token_def norm_run_def)
next
  assume s: "\<not> bad_value (PStr s)"
  have "list_all (\<lambda>v. str_or_none v \<and> \<not> bad_value v)
          [PNone, PNone, PNone, PNone, norm_run (PStr s), PNone, PNone, PNone]"
    using s by (simp add: str_or_none_def bad_value_def norm_run_def)
  from make_bids_filename_valid[OF this]
  show "make_bids_filename PNone PNone PNone PNone (PStr s) PNone PNone PNone PNone PNone
           = Inr (''run-'' @ s)"
    by (simp add: canonical_name_def entity_token_def norm_run_def)
next
  have f: "format_02 7 = ''07''"
    by (simp add: format_02_def string_of_int_def string_of_nat.simps digits_def)
  show "make_bids_filename PNone PNone PNone PNone (PInt 7) PNone PNone PNone PNone PNone
        = Inr ''run-07''"
    by (simp add: make_bids_filename_def f check_key_val_def forbidden_def)
next
  show "make_bids_filename PNone PNone PNone PNone (PStr ''7'') PNone PNone PNone PNone PNone
        = Inr ''run-7''"
    by (simp add: make_bids_filename_def check_key_val_def forbidden_def)
next
  have f: "format_02 123 = ''123''"
    by (simp add: format_02_def string_of_int_def string_of_nat.simps digits_def)
  show "make_bids_filename PNone PNone PNone PNone (PInt 123) PNone PNone PNone PNone PNone
        = Inr ''run-123''"
    by (simp add: make_bids_filename_def f check_key_val_def forbidden_def)
qed

theorem make_bids_filename_run_token_witness:
  "make_bids_filename PNone PNone PNone PNone (PInt 12) PNone PNone PNone PNone PNone
     = Inr ''run-12''
   \<and> format_02 12 = ''12''
   \<and> nat_of_string (format_02 12) = 12
   \<and> make_bids_filename PNone PNone PNone PNone (PStr ''007'') PNone PNone PNone PNone PNone
     = Inr ''run-007''"
proof -
  note inst = make_bids_filename_run_token[of _ _ _ _ 12 _ _ _ _ _ "''007''"]
  have h: "(0::int) \<le> 12" by simp
  have f: "format_02 12 = ''12''"
    by (simp add: format_02_def string_of_int_def string_of_nat.simps digits_def)
  have g: "\<not> bad_value (PStr ''007'')" by (simp add: bad_value_def forbidden_def)
  note a = inst[THEN conjunct2, THEN conjunct1, rule_format, OF h]
  note b = inst[THEN conjunct2, THEN conjunct2, THEN conjunct1, rule_format, OF h]
  note c = inst[THEN conjunct2, THEN conjunct2, THEN conjunct2, THEN conjunct1, rule_format, OF g]
  have n: "nat_of_string (format_02 12) = 12"
    using a[THEN conjunct2, THEN conjunct2, THEN conjunct2] by simp
  from b[unfolded f] f n c show ?thesis by simp
qed

subsection \<open>Suffix and prefix that are not strings\<close>

text \<open>
  Claim C10. A suffix or a prefix that is an integer never makes \<^verbatim>\<open>make_bids_filename\<close>
  fail: the type check runs over the eight entity values only. The result is that of the same
  call with the suffix, respectively the prefix, left out; with valid entities it is the
  canonical name without suffix and prefix.
\<close>

theorem make_bids_filename_nonstring_affixes:
  "make_bids_filename subject session task acquisition run processing recording space
        (PInt k) prefix
     = make_bids_filename subject session task acquisition run processing recording space
         PNone prefix
   \<and> make_bids_filename subject session task acquisition run processing recording space
        suffix (PInt k)
     = make_bids_filename subject session task acquisition run processing recording space
         suffix PNone
   \<and> (list_all (\<lambda>v. str_or_none v \<and> \<not> bad_value v)
         [subject, session, task, acquisition, norm_run run, processing, space, recording]
      \<longrightarrow> make_bids_filename subject session task acquisition run processing recording space
             (PInt k) (PInt k')
           = Inr (canonical_name subject session task acquisition run processing recording
                    space PNone PNone))
   \<and> make_bids_filename (PStr ''01'') PNone PNone PNone PNone PNone PNone PNone (PInt 5) (PInt 7)
     = Inr ''sub-01''"
proof (intro conjI impI)
  show "make_bids_filename subject session task acquisition run processing recording space
        (PInt k) prefix
     = make_bids_filename subject session task acquisition run processing recording space
         PNone prefix"
    unfolding make_bids_filename_unfold by (simp split: sum.splits pyval.splits)
  show "make_bids_filename subject session task acquisition run processing recording space
        suffix (PInt k)
     = make_bids_filename subject session task acquisition run processing recording space
         suffix PNone"
    unfolding make_bids_filename_unfold by (simp split: sum.splits pyval.splits)
  show "make_bids_filename (PStr ''01'') PNone PNone PNone PNone PNone PNone PNone (PInt 5) (PInt 7)
     = Inr ''sub-01''"
    by (simp add: make_bids_filename_def check_key_val_def forbidden_def)
next
  assume "list_all (\<lambda>v. str_or_none v \<and> \<not> bad_value v)
         [subject, session, task, acquisition, norm_run run, processing, space, recording]"
  from make_bids_filename_valid[OF this]
  show "make_bids_filename subject session task acquisition run processing recording space
             (PInt k) (PInt k')
           = Inr (canonical_name subject session task acquisition run processing recording
                    space PNone PNone)"
    by (simp add: canonical_name_def)
qed

theorem make_bids_filename_nonstring_affixes_witness:
  "make_bids_filename (PStr ''01'') (PStr ''a'') PNone PNone PNone PNone PNone PNone (PInt 3) (PInt 4)
     = Inr ''sub-01_ses-a''"
proof -
  have h: "list_all (\<lambda>v. str_or_none v \<and> \<not> bad_value v)
         [PStr ''01'', PStr ''a'', PNone, PNone, norm_run PNone, PNone, PNone, PNone]"
    by (simp add: str_or_none_def bad_value_def forbidden_def norm_run_def)
  have c: "canonical_name (PStr ''01'') (PStr ''a'') PNone PNone PNone PNone PNone PNone PNone PNone
      = ''sub-01_ses-a''"
    by (simp add: canonical_name_def entity_token_def norm_run_def)
  note a = make_bids_filename_nonstring_affixes
    [of "PStr ''01''" "PStr ''a''" PNone PNone PNone PNone PNone PNone 3 _ _ 4,
     THEN conjunct2, THEN conjunct2, THEN conjunct1, rule_format, OF h]
  from a[unfolded c] show ?thesis .
qed

subsection \<open>No entity at all\<close>

text \<open>
  Claim C4 says that a call with no entity at all fails with the error "At least one
  parameter must be given". The guard in the code inspects the keys of the table, which
  are always strings, so it never fires: with all eight entities \<^verbatim>\<open>None\<close> the call returns
  the empty name, or the bare suffix when one is given.
\<close>

theorem make_bids_filename_no_entities:
  "make_bids_filename PNone PNone PNone PNone PNone PNone PNone PNone PNone PNone = Inr ''''
   \<and> make_bids_filename PNone PNone PNone PNone PNone PNone PNone PNone
        (PStr ''data.csv'') PNone = Inr ''data.csv''"
  by (simp add: make_bids_filename_def)

section \<open>Properties of the folder builder\<close>


















section \<open>Properties of the copy\<close>

subsection \<open>The loop and the three outcomes before it\<close>

lemma file_write_upd:
  "file_write dest x (fs(dest \<mapsto> File c0)) = fs(dest \<mapsto> File (c0 @ x))"
  by (simp add: file_write_def)

lemma write_lines_File:
  "write_lines sl bs bd dest lines (fs(dest \<mapsto> File c0))
   = fs(dest \<mapsto> File (c0 @ concat (map (rewrite_line sl bs bd) lines)))"
proof (induction lines arbitrary: c0)
  case Nil
  show ?case by simp
next
  case (Cons line lines)
  have "write_lines sl bs bd dest (line # lines) (fs(dest \<mapsto> File c0))
        = write_lines sl bs bd dest lines (fs(dest \<mapsto> File (c0 @ rewrite_line sl bs bd line)))"
    by (simp add: rewrite_line_def file_write_upd)
  also have "\<dots> = fs(dest \<mapsto> File ((c0 @ rewrite_line sl bs bd line)
                       @ concat (map (rewrite_line sl bs bd) lines)))"
    by (rule Cons.IH)
  finally show ?case by (simp only: list.map concat.simps append_assoc)
qed

lemma copyfile_text:
  assumes "parse_ext src = (fname_src, ext)" "parse_ext dest = (fname_dest, ext)"
    and "ext = ''.vhdr'' \<or> ext = ''.vmrk''"
    and "fs src = Some (File text)" "fs dest \<noteq> Some Dir"
  shows "copyfile_brainvision parse_ext src dest fs
         = (Inr (), fs(dest \<mapsto> File (concat (map
              (rewrite_line (search_lines_of (basename_of fname_src))
                 (basename_of fname_src) (basename_of fname_dest))
              (py_readlines text)))))"
proof -
  from assms(4) have ex: "os_path_exists fs src" by (simp add: os_path_exists_def)
  from assms(3) have e1: "ext \<in> set bv_ext" and e2: "ext \<noteq> ''.eeg''"
    by (auto simp: bv_ext_def)
  from assms(4) have r: "open_read fs src = Inr text" by (simp add: open_read_def)
  from assms(5) have w: "open_write dest fs = (Inr (), fs(dest \<mapsto> File []))"
    by (auto simp: open_write_def split: option.splits node.splits)
  show ?thesis
    unfolding copyfile_brainvision_def
    by (simp add: ex assms(1,2) e1 e2 r w Let_def write_lines_File
          search_lines_of_def basename_of_def)
qed

lemma copyfile_missing:
  "\<not> os_path_exists fs src \<Longrightarrow>
   copyfile_brainvision parse_ext src dest fs
   = (Inl (IOError None (''File does not exist: '' @ src @ [newline])), fs)"
  by (simp add: copyfile_brainvision_def)

lemma copyfile_mismatch:
  assumes "os_path_exists fs src" "snd (parse_ext src) \<noteq> snd (parse_ext dest)"
  shows "copyfile_brainvision parse_ext src dest fs
   = (Inl (ValueError (''Need to move data with same extension but got ''
                       @ snd (parse_ext src) @ '', '' @ snd (parse_ext dest))), fs)"
proof -
  obtain a b where s: "parse_ext src = (a, b)" by (cases "parse_ext src")
  obtain c d where d: "parse_ext dest = (c, d)" by (cases "parse_ext dest")
  from assms show ?thesis by (simp add: copyfile_brainvision_def s d)
qed

lemma copyfile_unsupported:
  assumes "os_path_exists fs src" "snd (parse_ext src) = snd (parse_ext dest)"
    "snd (parse_ext src) \<notin> set bv_ext"
  shows "copyfile_brainvision parse_ext src dest fs
   = (Inl (ValueError (''Expecting file ending in one of '' @ list_repr bv_ext
                       @ '', but got '' @ snd (parse_ext src))), fs)"
proof -
  obtain a b where s: "parse_ext src = (a, b)" by (cases "parse_ext src")
  obtain c d where d: "parse_ext dest = (c, d)" by (cases "parse_ext dest")
  from assms show ?thesis by (simp add: copyfile_brainvision_def s d)
qed

lemma parse_ext_model_examples:
  "parse_ext_model ''foo.vhdr'' = (''foo'', ''.vhdr'')"
  "parse_ext_model ''bar.vhdr'' = (''bar'', ''.vhdr'')"
  "parse_ext_model ''foo.vmrk'' = (''foo'', ''.vmrk'')"
  "parse_ext_model ''bar.vmrk'' = (''bar'', ''.vmrk'')"
  "parse_ext_model ''pad/foo.vhdr'' = (''pad/foo'', ''.vhdr'')"
  "parse_ext_model ''pad/bar.vhdr'' = (''pad/bar'', ''.vhdr'')"
  "parse_ext_model ''bar.eeg'' = (''bar'', ''.eeg'')"
  "parse_ext_model ''foo.txt'' = (''foo'', ''.txt'')"
  "parse_ext_model ''bar.txt'' = (''bar'', ''.txt'')"
  by (simp_all add: parse_ext_model_def os_sep_def)

text \<open>
  Claim C7. \<^verbatim>\<open>copyfile_brainvision\<close> fails with an \<^verbatim>\<open>IOError\<close> when the source path does
  not exist; when it exists, with a \<^verbatim>\<open>ValueError\<close> when the extensions of source and
  destination differ, and with a \<^verbatim>\<open>ValueError\<close> when the shared extension is none of
  \<^verbatim>\<open>.eeg\<close>, \<^verbatim>\<open>.vhdr\<close>, \<^verbatim>\<open>.vmrk\<close>. In each of these cases the call fails and the file
  system is exactly what it was, so no destination has been created.
\<close>

theorem copyfile_brainvision_preconditions:
  "(\<not> os_path_exists fs src
      \<longrightarrow> copyfile_brainvision parse_ext src dest fs
          = (Inl (IOError None (''File does not exist: '' @ src @ [newline])), fs))
   \<and> (os_path_exists fs src \<and> snd (parse_ext src) \<noteq> snd (parse_ext dest)
      \<longrightarrow> copyfile_brainvision parse_ext src dest fs
          = (Inl (ValueError (''Need to move data with same extension but got ''
                              @ snd (parse_ext src) @ '', '' @ snd (parse_ext dest))), fs))
   \<and> (os_path_exists fs src \<and> snd (parse_ext src) = snd (parse_ext dest)
        \<and> snd (parse_ext src) \<notin> {''.eeg'', ''.vhdr'', ''.vmrk''}
      \<longrightarrow> copyfile_brainvision parse_ext src dest fs
          = (Inl (ValueError (''Expecting file ending in one of '' @ list_repr bv_ext
                              @ '', but got '' @ snd (parse_ext src))), fs))
   \<and> (\<not> os_path_exists fs src \<or> snd (parse_ext src) \<noteq> snd (parse_ext dest)
        \<or> snd (parse_ext src) \<notin> {''.eeg'', ''.vhdr'', ''.vmrk''}
      \<longrightarrow> (\<exists>e. fst (copyfile_brainvision parse_ext src dest fs) = Inl e)
          \<and> snd (copyfile_brainvision parse_ext src dest fs) = fs)"
proof -
  have set_eq: "set bv_ext = {''.eeg'', ''.vhdr'', ''.vmrk''}" by (simp add: bv_ext_def)
  let ?r = "copyfile_brainvision parse_ext src dest fs"
  have a: "\<not> os_path_exists fs src \<Longrightarrow>
      ?r = (Inl (IOError None (''File does not exist: '' @ src @ [newline])), fs)"
    by (rule copyfile_missing)
  have b: "os_path_exists fs src \<Longrightarrow> snd (parse_ext src) \<noteq> snd (parse_ext dest) \<Longrightarrow>
      ?r = (Inl (ValueError (''Need to move data with same extension but got ''
                              @ snd (parse_ext src) @ '', '' @ snd (parse_ext dest))), fs)"
    by (rule copyfile_mismatch)
  have c: "?r = (Inl (ValueError (''Expecting file ending in one of '' @ list_repr bv_ext
                              @ '', but got '' @ snd (parse_ext src))), fs)"
    if "os_path_exists fs src" "snd (parse_ext src) = snd (parse_ext dest)"
      "snd (parse_ext src) \<notin> {''.eeg'', ''.vhdr'', ''.vmrk''}"
  proof -
    from that(3) have "snd (parse_ext src) \<notin> set bv_ext" unfolding set_eq .
    from copyfile_unsupported[OF that(1,2) this] show ?thesis .
  qed
  have d: "(\<exists>e. fst ?r = Inl e) \<and> snd ?r = fs"
    if "\<not> os_path_exists fs src \<or> snd (parse_ext src) \<noteq> snd (parse_ext dest)
        \<or> snd (parse_ext src) \<notin> {''.eeg'', ''.vhdr'', ''.vmrk''}"
  proof (cases "os_path_exists fs src")
    case False
    from a[OF this] show ?thesis by simp
  next
    case ex: True
    show ?thesis
    proof (cases "snd (parse_ext src) = snd (parse_ext dest)")
      case False
      from b[OF ex this] show ?thesis by simp
    next
      case True
      with that ex have "snd (parse_ext src) \<notin> {''.eeg'', ''.vhdr'', ''.vmrk''}" by blast
      from c[OF ex True this] show ?thesis by simp
    qed
  qed
  from a b c d show ?thesis by blast
qed

theorem copyfile_brainvision_preconditions_witness:
  "copyfile_brainvision parse_ext_model ''nowhere.vhdr'' ''bar.vhdr'' sample_fs
     = (Inl (IOError None (''File does not exist: nowhere.vhdr'' @ [newline])), sample_fs)
   \<and> copyfile_brainvision parse_ext_model ''foo.vhdr'' ''bar.eeg'' sample_fs
     = (Inl (ValueError ''Need to move data with same extension but got .vhdr, .eeg''),
        sample_fs)
   \<and> sample_fs ''bar.eeg'' = None
   \<and> (\<exists>e. fst (copyfile_brainvision parse_ext_model ''pad'' ''bar.vhdr'' sample_fs) = Inl e)
   \<and> snd (copyfile_brainvision parse_ext_model ''pad'' ''bar.vhdr'' sample_fs) = sample_fs"
proof -
  have h1: "\<not> os_path_exists sample_fs ''nowhere.vhdr''"
    by (simp add: os_path_exists_def sample_fs_def)
  have h2: "os_path_exists sample_fs ''foo.vhdr''
      \<and> snd (parse_ext_model ''foo.vhdr'') \<noteq> snd (parse_ext_model ''bar.eeg'')"
    by (simp add: os_path_exists_def sample_fs_def parse_ext_model_examples)
  have p: "parse_ext_model ''pad'' = (''pad'', [])"
    by (simp add: parse_ext_model_def os_sep_def)
  have h4: "\<not> os_path_exists sample_fs ''pad''
      \<or> snd (parse_ext_model ''pad'') \<noteq> snd (parse_ext_model ''bar.vhdr'')
      \<or> snd (parse_ext_model ''pad'') \<notin> {''.eeg'', ''.vhdr'', ''.vmrk''}"
    by (simp add: p parse_ext_model_examples)
  note a = copyfile_brainvision_preconditions
    [of sample_fs "''nowhere.vhdr''" parse_ext_model "''bar.vhdr''",
     THEN conjunct1, rule_format, OF h1]
  note b = copyfile_brainvision_preconditions
    [of sample_fs "''foo.vhdr''" parse_ext_model "''bar.eeg''",
     THEN conjunct2, THEN conjunct1, rule_format, OF h2]
  note d = copyfile_brainvision_preconditions
    [of sample_fs "''pad''" parse_ext_model "''bar.vhdr''",
     THEN conjunct2, THEN conjunct2, THEN conjunct2, rule_format, OF h4]
  have n: "sample_fs ''bar.eeg'' = None" by (simp add: sample_fs_def)
  from a b d n show ?thesis by (simp add: parse_ext_model_examples)
qed


subsection \<open>Properties of \<^verbatim>\<open>strip\<close>\<close>

lemma py_strip_padded:
  assumes "list_all is_space ws1" "list_all is_space ws2"
    and "r \<noteq> []" "\<not> is_space (hd r)" "\<not> is_space (last r)"
  shows "py_strip (ws1 @ r @ ws2) = r"
proof -
  from assms(1) have "dropWhile is_space (ws1 @ r @ ws2) = dropWhile is_space (r @ ws2)"
    by (simp add: list_all_iff dropWhile_append2)
  also from assms(3,4) have "\<dots> = r @ ws2" by (cases r) simp_all
  finally have a: "dropWhile is_space (ws1 @ r @ ws2) = r @ ws2" .
  from assms(2) have "\<And>x. x \<in> set (rev ws2) \<Longrightarrow> is_space x"
    by (simp add: list_all_iff)
  then have "dropWhile is_space (rev ws2 @ rev r) = dropWhile is_space (rev r)"
    by (rule dropWhile_append2)
  then have "dropWhile is_space (rev (r @ ws2)) = dropWhile is_space (rev r)"
    by simp
  also from assms(3,5) have "\<dots> = rev r"
    by (cases "rev r") (simp_all add: last_rev[symmetric] hd_rev)
  finally show ?thesis by (simp add: py_strip_def a)
qed

subsection \<open>Properties of \<^verbatim>\<open>replace\<close>\<close>

lemma py_replace_Nil: "old \<noteq> [] \<Longrightarrow> py_replace old new [] = []"
  by (subst py_replace.simps) simp

lemma py_replace_match: "old \<noteq> [] \<Longrightarrow> py_replace old new (old @ s) = new @ py_replace old new s"
  by (subst py_replace.simps) simp

lemma py_replace_skip:
  assumes "old \<noteq> []" "hd old \<noteq> c"
  shows "py_replace old new (c # s) = c # py_replace old new s"
proof -
  from assms have "take (length old) (c # s) \<noteq> old" by (cases old) auto
  with assms(1) show ?thesis by (subst py_replace.simps) simp
qed

lemma py_replace_skip_prefix:
  "old \<noteq> [] \<Longrightarrow> hd old \<notin> set pre \<Longrightarrow> py_replace old new (pre @ s) = pre @ py_replace old new s"
  by (induction pre) (auto simp: py_replace_skip)

lemma py_replace_none: "old \<noteq> [] \<Longrightarrow> hd old \<notin> set s \<Longrightarrow> py_replace old new s = s"
  using py_replace_skip_prefix[of old s new "[]"] by (simp add: py_replace_Nil)

lemma py_replace_once:
  assumes "old \<noteq> []" "hd old \<notin> set pre" "hd old \<notin> set post"
  shows "py_replace old new (pre @ old @ post) = pre @ new @ post"
  using assms by (simp add: py_replace_skip_prefix py_replace_match py_replace_none)





subsection \<open>Properties of \<^verbatim>\<open>readlines\<close>\<close>

lemma concat_py_readlines: "concat (py_readlines s) = s"
  by (induction s) (auto split: list.splits)







subsection \<open>The rewritten lines\<close>


lemma not_in_spaces: "list_all is_space ws \<Longrightarrow> \<not> is_space c \<Longrightarrow> c \<notin> set ws"
  by (auto simp: list_all_iff)




lemma strip_data_ref:
  assumes "list_all is_space ws1" "list_all is_space ws2"
  shows "py_strip (ws1 @ (''DataFile='' @ b @ ''.eeg'') @ ws2) = ''DataFile='' @ b @ ''.eeg''"
  by (rule py_strip_padded[OF assms]) (simp_all add: is_space_def whitespace_def)

lemma strip_marker_ref:
  assumes "list_all is_space ws1" "list_all is_space ws2"
  shows "py_strip (ws1 @ (''MarkerFile='' @ b @ ''.vmrk'') @ ws2) = ''MarkerFile='' @ b @ ''.vmrk''"
  by (rule py_strip_padded[OF assms]) (simp_all add: is_space_def whitespace_def)










lemma vmrk_lines:
  "py_readlines vmrk_text
   = [''[Common Infos]\<newline>'', ''DataFile=foo.eeg\<newline>'', ''MarkerFile=foo.vmrk\<newline>'']"
  by code_simp

lemma basename_examples:
  "last (py_split os_sep ''pad/foo'') = ''foo''" "last (py_split os_sep ''pad/bar'') = ''bar''"
  "last (py_split os_sep ''foo'') = ''foo''" "last (py_split os_sep ''bar'') = ''bar''"
  by (simp_all add: os_sep_def)





section \<open>Further properties\<close>

text \<open>
  The rewriting for any basenames. When the first character of the source basename is not
  white space and occurs in none of \<^verbatim>\<open>DataFile=\<close>, \<^verbatim>\<open>MarkerFile=\<close>, \<^verbatim>\<open>.eeg\<close> and
  \<^verbatim>\<open>.vmrk\<close>, a reference line of a text member, with any white space around it, is written
  with the destination basename in place of the source basename and is otherwise unchanged.
\<close>

theorem copyfile_brainvision_reference_renamed:
  assumes "parse_ext src = (fname_src, ext)" and "parse_ext dest = (fname_dest, ext)"
    and "ext = ''.vhdr'' \<or> ext = ''.vmrk''"
    and "fs src = Some (File text)" and "fs dest \<noteq> Some Dir"
    and "last (py_split os_sep fname_src) \<noteq> []"
    and "hd (last (py_split os_sep fname_src)) \<notin> set ''DataFile=MarkerFile=.eeg.vmrk''"
    and "\<not> is_space (hd (last (py_split os_sep fname_src)))"
  shows "\<exists>out. copyfile_brainvision parse_ext src dest fs = (Inr (), fs(dest \<mapsto> File (concat out)))
      \<and> length out = length (py_readlines text)
      \<and> (\<forall>i < length (py_readlines text). \<forall>ws1 ws2.
            list_all is_space ws1 \<and> list_all is_space ws2
            \<and> py_readlines text ! i
                = ws1 @ ''DataFile='' @ last (py_split os_sep fname_src) @ ''.eeg'' @ ws2
            \<longrightarrow> out ! i = ws1 @ ''DataFile='' @ last (py_split os_sep fname_dest) @ ''.eeg'' @ ws2)
      \<and> (\<forall>i < length (py_readlines text). \<forall>ws1 ws2.
            list_all is_space ws1 \<and> list_all is_space ws2
            \<and> py_readlines text ! i
                = ws1 @ ''MarkerFile='' @ last (py_split os_sep fname_src) @ ''.vmrk'' @ ws2
            \<longrightarrow> out ! i = ws1 @ ''MarkerFile='' @ last (py_split os_sep fname_dest) @ ''.vmrk'' @ ws2)"
proof -
  let ?bs = "last (py_split os_sep fname_src)"
  let ?bd = "last (py_split os_sep fname_dest)"
  let ?rw = "rewrite_line (search_lines_of ?bs) ?bs ?bd"
  let ?lines = "py_readlines text"
  have res: "copyfile_brainvision parse_ext src dest fs
             = (Inr (), fs(dest \<mapsto> File (concat (map ?rw ?lines))))"
    using copyfile_text[OF assms(1-5)] by (simp add: basename_of_def)
  have data: "?rw (ws1 @ ''DataFile='' @ ?bs @ ''.eeg'' @ ws2) = ws1 @ ''DataFile='' @ ?bd @ ''.eeg'' @ ws2"
    if sp: "list_all is_space ws1" "list_all is_space ws2" for ws1 ws2
  proof -
    have st: "py_strip (ws1 @ (''DataFile='' @ ?bs @ ''.eeg'') @ ws2) = ''DataFile='' @ ?bs @ ''.eeg''"
      by (rule strip_data_ref[OF sp])
    have f1: "hd ?bs \<notin> set (ws1 @ ''DataFile='')"
      using not_in_spaces[OF sp(1) assms(8)] assms(7) by simp
    have f2: "hd ?bs \<notin> set (''.eeg'' @ ws2)"
      using not_in_spaces[OF sp(2) assms(8)] assms(7) by simp
    have "py_replace ?bs ?bd ((ws1 @ ''DataFile='') @ ?bs @ (''.eeg'' @ ws2))
          = (ws1 @ ''DataFile='') @ ?bd @ (''.eeg'' @ ws2)"
      by (rule py_replace_once[OF assms(6) f1 f2])
    with st show ?thesis by (simp add: rewrite_line_def search_lines_of_def)
  qed
  have marker: "?rw (ws1 @ ''MarkerFile='' @ ?bs @ ''.vmrk'' @ ws2) = ws1 @ ''MarkerFile='' @ ?bd @ ''.vmrk'' @ ws2"
    if sp: "list_all is_space ws1" "list_all is_space ws2" for ws1 ws2
  proof -
    have st: "py_strip (ws1 @ (''MarkerFile='' @ ?bs @ ''.vmrk'') @ ws2) = ''MarkerFile='' @ ?bs @ ''.vmrk''"
      by (rule strip_marker_ref[OF sp])
    have f1: "hd ?bs \<notin> set (ws1 @ ''MarkerFile='')"
      using not_in_spaces[OF sp(1) assms(8)] assms(7) by simp
    have f2: "hd ?bs \<notin> set (''.vmrk'' @ ws2)"
      using not_in_spaces[OF sp(2) assms(8)] assms(7) by simp
    have "py_replace ?bs ?bd ((ws1 @ ''MarkerFile='') @ ?bs @ (''.vmrk'' @ ws2))
          = (ws1 @ ''MarkerFile='') @ ?bd @ (''.vmrk'' @ ws2)"
      by (rule py_replace_once[OF assms(6) f1 f2])
    with st show ?thesis by (simp add: rewrite_line_def search_lines_of_def)
  qed
  show ?thesis
  proof (intro exI[of _ "map ?rw ?lines"] conjI allI impI)
    show "copyfile_brainvision parse_ext src dest fs
             = (Inr (), fs(dest \<mapsto> File (concat (map ?rw ?lines))))"
      by (rule res)
    show "length (map ?rw ?lines) = length ?lines" by simp
  next
    fix i ws1 ws2
    assume "i < length ?lines"
      and "list_all is_space ws1 \<and> list_all is_space ws2
            \<and> ?lines ! i = ws1 @ ''DataFile='' @ ?bs @ ''.eeg'' @ ws2"
    then show "map ?rw ?lines ! i = ws1 @ ''DataFile='' @ ?bd @ ''.eeg'' @ ws2"
      using data[of ws1 ws2] by (simp del: append.simps)
  next
    fix i ws1 ws2
    assume "i < length ?lines"
      and "list_all is_space ws1 \<and> list_all is_space ws2
            \<and> ?lines ! i = ws1 @ ''MarkerFile='' @ ?bs @ ''.vmrk'' @ ws2"
    then show "map ?rw ?lines ! i = ws1 @ ''MarkerFile='' @ ?bd @ ''.vmrk'' @ ws2"
      using marker[of ws1 ws2] by (simp del: append.simps)
  qed
qed

theorem copyfile_brainvision_reference_renamed_witness:
  "\<exists>out. copyfile_brainvision parse_ext_model ''foo.vmrk'' ''bar.vmrk'' sample_fs
        = (Inr (), sample_fs(''bar.vmrk'' \<mapsto> File (concat out)))
     \<and> length out = 3
     \<and> out ! 1 = ''DataFile=bar.eeg\<newline>''
     \<and> out ! 2 = ''MarkerFile=bar.vmrk\<newline>''"
proof -
  have h1: "parse_ext_model ''foo.vmrk'' = (''foo'', ''.vmrk'')"
    and h2: "parse_ext_model ''bar.vmrk'' = (''bar'', ''.vmrk'')"
    by (simp_all add: parse_ext_model_examples)
  have h3: "''.vmrk'' = ''.vhdr'' \<or> ''.vmrk'' = ''.vmrk''" by simp
  have h4: "sample_fs ''foo.vmrk'' = Some (File vmrk_text)"
    and h5: "sample_fs ''bar.vmrk'' \<noteq> Some Dir"
    by (simp_all add: sample_fs_def)
  have h6: "last (py_split os_sep ''foo'') \<noteq> []"
    and h7: "hd (last (py_split os_sep ''foo'')) \<notin> set ''DataFile=MarkerFile=.eeg.vmrk''"
    and h8: "\<not> is_space (hd (last (py_split os_sep ''foo'')))"
    by (simp_all add: os_sep_def is_space_def whitespace_def)
  from copyfile_brainvision_reference_renamed
    [where parse_ext = parse_ext_model and src = "''foo.vmrk''" and dest = "''bar.vmrk''"
       and fs = sample_fs, OF h1 h2 h3 h4 h5 h6 h7 h8, unfolded basename_examples]
  obtain out where r: "copyfile_brainvision parse_ext_model ''foo.vmrk'' ''bar.vmrk'' sample_fs
        = (Inr (), sample_fs(''bar.vmrk'' \<mapsto> File (concat out)))"
    and len: "length out = length (py_readlines vmrk_text)"
    and data: "\<forall>i < length (py_readlines vmrk_text). \<forall>ws1 ws2.
            list_all is_space ws1 \<and> list_all is_space ws2
            \<and> py_readlines vmrk_text ! i = ws1 @ ''DataFile='' @ ''foo'' @ ''.eeg'' @ ws2
            \<longrightarrow> out ! i = ws1 @ ''DataFile='' @ ''bar'' @ ''.eeg'' @ ws2"
    and marker: "\<forall>i < length (py_readlines vmrk_text). \<forall>ws1 ws2.
            list_all is_space ws1 \<and> list_all is_space ws2
            \<and> py_readlines vmrk_text ! i = ws1 @ ''MarkerFile='' @ ''foo'' @ ''.vmrk'' @ ws2
            \<longrightarrow> out ! i = ws1 @ ''MarkerFile='' @ ''bar'' @ ''.vmrk'' @ ws2"
    by blast
  have l1: "1 < length (py_readlines vmrk_text)" and l2: "2 < length (py_readlines vmrk_text)"
    by (simp_all add: vmrk_lines)
  have p1: "list_all is_space [] \<and> list_all is_space ''\<newline>''
            \<and> py_readlines vmrk_text ! 1 = [] @ ''DataFile='' @ ''foo'' @ ''.eeg'' @ ''\<newline>''"
    by (simp add: vmrk_lines is_space_def whitespace_def)
  have p2: "list_all is_space [] \<and> list_all is_space ''\<newline>''
            \<and> py_readlines vmrk_text ! 2 = [] @ ''MarkerFile='' @ ''foo'' @ ''.vmrk'' @ ''\<newline>''"
    by (simp add: vmrk_lines is_space_def whitespace_def)
  have a: "out ! 1 = ''DataFile=bar.eeg\<newline>''"
    using data[rule_format, OF l1 p1] by simp
  have b: "out ! 2 = ''MarkerFile=bar.vmrk\<newline>''"
    using marker[rule_format, OF l2 p2] by simp
  from r len a b show ?thesis by (auto simp: vmrk_lines)
qed

text \<open>
  Without that condition the replacement reaches the key of the line: \<^verbatim>\<open>replace\<close> runs
  over the whole line, so for the basename \<^verbatim>\<open>a\<close> the letters of \<^verbatim>\<open>DataFile\<close> and
  \<^verbatim>\<open>MarkerFile\<close> are replaced as well.
\<close>

theorem copyfile_brainvision_short_basename:
  "short_fs ''a.vhdr'' = Some (File ''DataFile=a.eeg\<newline>MarkerFile=a.vmrk\<newline>'')
   \<and> snd (copyfile_brainvision parse_ext_model ''a.vhdr'' ''bar.vhdr'' short_fs) ''bar.vhdr''
       = Some (File ''DbartbarFile=bar.eeg\<newline>MbarrkerFile=bar.vmrk\<newline>'')"
  by code_simp

text \<open>
  The example in the docstring of \<^verbatim>\<open>make_bids_folders\<close> passes the session
  \<^verbatim>\<open>my_session\<close>. The validator rejects its underscore, so the call raises and returns no
  path; the world is unchanged.
\<close>

theorem make_bids_folders_docstring_example:
  "make_bids_folders os (PStr ''sub_01'') (PStr ''my_session'') (PStr ''meg'')
       (PStr ''path/to/project'') False overwrite verbose w
     = (Inl (ValueError (unallowed_msg ''ses'' ''my_session'')), w)"
  by (simp add: make_bids_folders_def check_key_val_def forbidden_def)

text \<open>
  A negative run number is formatted with its sign, and the validator then rejects the
  hyphen.
\<close>

theorem make_bids_filename_negative_run:
  "i < 0 \<longrightarrow>
     make_bids_filename PNone PNone PNone PNone (PInt i) PNone PNone PNone PNone PNone
       = Inl (ValueError (unallowed_msg ''run'' (CHR ''-'' # string_of_nat (nat (- i)))))"
proof
  assume i: "i < 0"
  have ne: "string_of_nat (nat (- i)) \<noteq> []" by (rule string_of_nat_nonempty)
  then have "length (string_of_nat (nat (- i))) \<noteq> 0" by simp
  then have f: "format_02 i = CHR ''-'' # string_of_nat (nat (- i))"
    using i by (simp add: format_02_def string_of_int_def Let_def)
  have t: "list_all str_or_none
             [PNone, PNone, PNone, PNone, norm_run (PInt i), PNone, PNone, PNone]"
    by (simp add: str_or_none_def norm_run_def)
  have b: "find (\<lambda>kv. bad_value (snd kv))
           (entity_table PNone PNone PNone PNone (PInt i) PNone PNone PNone)
           = Some (''run'', PStr (format_02 i))"
    by (simp add: entity_table_def norm_run_def bad_value_def forbidden_def f)
  from make_bids_filename_invalid[OF t b] show
    "make_bids_filename PNone PNone PNone PNone (PInt i) PNone PNone PNone PNone PNone
       = Inl (ValueError (unallowed_msg ''run'' (CHR ''-'' # string_of_nat (nat (- i)))))"
    by (simp add: f)
qed

theorem make_bids_filename_negative_run_witness:
  "make_bids_filename PNone PNone PNone PNone (PInt (- 1)) PNone PNone PNone PNone PNone
     = Inl (ValueError (unallowed_msg ''run'' ''-1''))"
proof -
  have h: "(- 1 :: int) < 0" by simp
  have d: "string_of_nat (nat (- (- 1))) = ''1''"
    by (simp add: string_of_nat.simps digits_def)
  from make_bids_filename_negative_run[of "- 1", rule_format, OF h] show ?thesis
    by (simp only: d)
qed

end
